theory Spec2Isabelle
  imports Complex_Main
begin

section \<open>Shared data model\<close>

text \<open>
  A metadata record is a Python dict from string keys to string values, owned by the
  container registry and never mutated by the managers.  \<open>md k\<close> is \<open>md.get(k)\<close>;
  a subscript \<open>md[k]\<close> on a missing key raises \<open>KeyError\<close>.
\<close>

type_synonym MetadataRecord = "string \<rightharpoonup> string"

text \<open>
  The exceptions the two managers can raise.  \<open>RuntimeError\<close> carries the formatted
  message of the source; \<open>TypeError\<close> is a subscript on \<open>None\<close>.
\<close>

datatype error = KeyError string | TypeError | RuntimeError string

text \<open>
  The container registry is an external collaborator.  Only two of its operations are
  used: \<open>findContainersMetadata(type = t)\<close> and \<open>findInstanceContainers(id = i)\<close>.
  Container handles are opaque values of type \<open>'c\<close>.
\<close>

record 'c ContainerRegistry =
  findContainersMetadata :: "string \<Rightarrow> MetadataRecord list"
  findInstanceContainers :: "string \<Rightarrow> 'c list"

text \<open>A \<open>for\<close> loop whose body may raise: the first exception ends the loop.\<close>

fun for_each :: "('s \<Rightarrow> 'a \<Rightarrow> error + 's) \<Rightarrow> 's \<Rightarrow> 'a list \<Rightarrow> error + 's" where
  "for_each body s [] = Inr s"
| "for_each body s (x # xs) =
     (case body s x of Inl e \<Rightarrow> Inl e | Inr s' \<Rightarrow> for_each body s' xs)"

section \<open>VariantManager\<close>

text \<open>
  An entry of the variant table is the dict \<open>{"metadata": ..., "container": ...}\<close>.
  \<open>variant_lookups\<close> is a ghost counter that the source does not have: it counts the
  calls of \<open>findInstanceContainers\<close> made for this entry, and no result depends on it.
\<close>

record 'c variant_dict =
  variant_metadata :: MetadataRecord
  variant_container :: "'c option"
  variant_lookups :: nat

record 'c VariantManager =
  variant_container_registry :: "'c ContainerRegistry"
  machine_to_variant_dict_map :: "string \<rightharpoonup> (string \<rightharpoonup> 'c variant_dict)"
  exclude_variant_id_list :: "string list"

definition VariantManager_init :: "'c ContainerRegistry \<Rightarrow> 'c VariantManager" where
  "VariantManager_init container_registry =
     \<lparr>variant_container_registry = container_registry,
      machine_to_variant_dict_map = Map.empty,
      exclude_variant_id_list = [''empty_variant'']\<rparr>"

definition duplicated_variant_message :: "string \<Rightarrow> string \<Rightarrow> string \<Rightarrow> string" where
  "duplicated_variant_message variant_name variant_type variant_definition =
     ''Found duplicated variant name ['' @ variant_name @ ''], type ['' @ variant_type @
     ''] for machine ['' @ variant_definition @ '']''"

definition variant_lazy_load_message :: "string \<Rightarrow> string" where
  "variant_lazy_load_message variant_id =
     ''Cannot lazy-load variant container ['' @ variant_id @
     ''], cannot be found in ContainerRegistry''"

text \<open>The body of the loop of \<open>VariantManager.initialize\<close>, on the variant table.\<close>

definition add_variant ::
  "string list \<Rightarrow> (string \<rightharpoonup> (string \<rightharpoonup> 'c variant_dict)) \<Rightarrow> MetadataRecord \<Rightarrow>
   error + (string \<rightharpoonup> (string \<rightharpoonup> 'c variant_dict))" where
  "add_variant exclude table variant_md =
     (case variant_md ''id'' of
        None \<Rightarrow> Inl (KeyError ''id'')
      | Some variant_id \<Rightarrow>
          if variant_id \<in> set exclude then Inr table
          else
            (case variant_md ''name'' of
               None \<Rightarrow> Inl (KeyError ''name'')
             | Some variant_name \<Rightarrow>
                 (case variant_md ''definition'' of
                    None \<Rightarrow> Inl (KeyError ''definition'')
                  | Some variant_definition \<Rightarrow>
                      (case variant_md ''hardware_type'' of
                         None \<Rightarrow> Inl (KeyError ''hardware_type'')
                       | Some variant_type \<Rightarrow>
                           (let variant_dict =
                                  (case table variant_definition of
                                     None \<Rightarrow> Map.empty
                                   | Some d \<Rightarrow> d)
                            in if variant_dict variant_name \<noteq> None
                               then Inl (RuntimeError (duplicated_variant_message
                                           variant_name variant_type variant_definition))
                               else Inr (table(variant_definition \<mapsto>
                                      variant_dict(variant_name \<mapsto>
                                        \<lparr>variant_metadata = variant_md,
                                         variant_container = None,
                                         variant_lookups = 0\<rparr>))))))))"

definition VariantManager_initialize :: "'c VariantManager \<Rightarrow> error + 'c VariantManager" where
  "VariantManager_initialize self =
     (let variant_metadata_list =
            findContainersMetadata (variant_container_registry self) ''variant''
      in case for_each (add_variant (exclude_variant_id_list self))
                (machine_to_variant_dict_map self) variant_metadata_list of
           Inl e \<Rightarrow> Inl e
         | Inr table \<Rightarrow> Inr (self\<lparr>machine_to_variant_dict_map := table\<rparr>))"

text \<open>
  \<open>getVariantMetadata\<close> subscripts the table with the machine name (a \<open>KeyError\<close> when
  it is missing) and then uses \<open>.get\<close> for the variant name.  The \<open>variant_type\<close>
  argument is accepted and not used.
\<close>

definition getVariantMetadata ::
  "'c VariantManager \<Rightarrow> string \<Rightarrow> string \<Rightarrow> string option \<Rightarrow> error + MetadataRecord option" where
  "getVariantMetadata self machine_type_name variant_name variant_type =
     (case machine_to_variant_dict_map self machine_type_name of
        None \<Rightarrow> Inl (KeyError machine_type_name)
      | Some machine_dict \<Rightarrow>
          (case machine_dict variant_name of
             None \<Rightarrow> Inr None
           | Some variant_dict \<Rightarrow> Inr (Some (variant_metadata variant_dict))))"

text \<open>
  \<open>getVariant\<close> also loads the container on first use.  It returns the outcome (an
  exception or the optional container) together with the manager after the call, since
  an exception does not undo what happened before it.
\<close>

definition getVariant ::
  "'c VariantManager \<Rightarrow> string \<Rightarrow> string \<Rightarrow> string option \<Rightarrow>
   (error + 'c option) \<times> 'c VariantManager" where
  "getVariant self machine_type_name variant_name variant_type =
     (case machine_to_variant_dict_map self machine_type_name of
        None \<Rightarrow> (Inl (KeyError machine_type_name), self)
      | Some machine_dict \<Rightarrow>
          (case machine_dict variant_name of
             None \<Rightarrow> (Inr None, self)
           | Some variant_dict \<Rightarrow>
               (case variant_container variant_dict of
                  Some c \<Rightarrow> (Inr (Some c), self)
                | None \<Rightarrow>
                    (case variant_metadata variant_dict ''id'' of
                       None \<Rightarrow> (Inl (KeyError ''id''), self)
                     | Some variant_id \<Rightarrow>
                         (let variant_list =
                                findInstanceContainers (variant_container_registry self) variant_id;
                              looked = variant_dict\<lparr>variant_lookups := Suc (variant_lookups variant_dict)\<rparr>;
                              store = (\<lambda>d. self\<lparr>machine_to_variant_dict_map :=
                                         (machine_to_variant_dict_map self)(machine_type_name \<mapsto>
                                            machine_dict(variant_name \<mapsto> d))\<rparr>)
                          in case variant_list of
                               [] \<Rightarrow> (Inl (RuntimeError (variant_lazy_load_message variant_id)),
                                      store looked)
                             | c # _ \<Rightarrow> (Inr (Some c),
                                         store (looked\<lparr>variant_container := Some c\<rparr>)))))))"

section \<open>MaterialManager\<close>

text \<open>
  \<open>MaterialNode\<close> has the four slots of the source class.  \<open>lookups\<close> is a ghost
  counter that the source does not have: it counts the calls of
  \<open>findInstanceContainers\<close> made for this node, and no result depends on it.
  Every node object is stored in exactly one dict slot, so a node is identified by the
  path of keys that leads to it and the tree of nodes is modelled by value.
\<close>

datatype 'c MaterialNode = MaterialNode
  (metadata: "MetadataRecord option")
  (container: "'c option")
  (material_map: "string \<rightharpoonup> 'c MaterialNode")
  (children_map: "string \<rightharpoonup> 'c MaterialNode")
  (lookups: nat)

definition new_MaterialNode :: "MetadataRecord option \<Rightarrow> 'c MaterialNode" where
  "new_MaterialNode md = MaterialNode md None Map.empty Map.empty 0"

text \<open>Attribute assignments on a node.\<close>

definition set_container :: "'c MaterialNode \<Rightarrow> 'c option \<Rightarrow> 'c MaterialNode" where
  "set_container node c =
     MaterialNode (metadata node) c (material_map node) (children_map node) (lookups node)"

definition set_material_map ::
  "'c MaterialNode \<Rightarrow> (string \<rightharpoonup> 'c MaterialNode) \<Rightarrow> 'c MaterialNode" where
  "set_material_map node m =
     MaterialNode (metadata node) (container node) m (children_map node) (lookups node)"

definition set_children_map ::
  "'c MaterialNode \<Rightarrow> (string \<rightharpoonup> 'c MaterialNode) \<Rightarrow> 'c MaterialNode" where
  "set_children_map node m =
     MaterialNode (metadata node) (container node) (material_map node) m (lookups node)"

definition set_lookups :: "'c MaterialNode \<Rightarrow> nat \<Rightarrow> 'c MaterialNode" where
  "set_lookups node n =
     MaterialNode (metadata node) (container node) (material_map node) (children_map node) n"

record 'c MaterialManager =
  container_registry :: "'c ContainerRegistry"
  guid_to_root_materials_map :: "string \<rightharpoonup> 'c MaterialNode"
  diameter_machine_variant_material_map :: "string \<rightharpoonup> (string \<rightharpoonup> 'c MaterialNode)"
  default_machine_definition_id :: string

definition MaterialManager_init :: "'c ContainerRegistry \<Rightarrow> 'c MaterialManager" where
  "MaterialManager_init registry =
     \<lparr>container_registry = registry,
      guid_to_root_materials_map = Map.empty,
      diameter_machine_variant_material_map = Map.empty,
      default_machine_definition_id = ''fdmprinter''\<rparr>"

definition duplicate_material_message :: "string \<Rightarrow> string \<Rightarrow> string \<Rightarrow> string" where
  "duplicate_material_message variant_name definition_id material_id =
     ''Found duplicate variant name ['' @ variant_name @ ''] for machine ['' @ definition_id @
     ''] in material ['' @ material_id @ '']''"

definition material_lazy_load_message :: "string \<Rightarrow> string" where
  "material_lazy_load_message container_id =
     ''Cannot lazy-load material container ['' @ container_id @
     ''], cannot be found in ContainerRegistry''"

text \<open>The body of the first loop of \<open>initialize\<close>: the table GUID \<open>\<rightarrow>\<close> root material.\<close>

definition add_root_material ::
  "(string \<rightharpoonup> 'c MaterialNode) \<Rightarrow> MetadataRecord \<Rightarrow> error + (string \<rightharpoonup> 'c MaterialNode)" where
  "add_root_material guid_map material_metadata =
     (case material_metadata ''id'' of
        None \<Rightarrow> Inl (KeyError ''id'')
      | Some material_id \<Rightarrow>
          if material_id = ''empty_material'' then Inr guid_map
          else
            (case material_metadata ''GUID'' of
               None \<Rightarrow> Inl (KeyError ''GUID'')
             | Some guid \<Rightarrow>
                 (let base_file = material_metadata ''base_file''
                  in if Some material_id = base_file
                     then (if guid_map guid = None
                           then Inr (guid_map(guid \<mapsto> new_MaterialNode (Some material_metadata)))
                           else Inr guid_map)
                     else Inr guid_map)))"

text \<open>
  The body of the second loop: diameter \<open>\<rightarrow>\<close> machine \<open>\<rightarrow>\<close> variant \<open>\<rightarrow>\<close> root material id.
  A missing bucket, machine node or variant node is created first; the changed machine
  node is stored back under its diameter and machine keys.  \<open>not variant_name\<close> holds
  for a missing key and for the empty string.
\<close>

definition add_material ::
  "(string \<rightharpoonup> 'c MaterialNode) \<Rightarrow> (string \<rightharpoonup> (string \<rightharpoonup> 'c MaterialNode)) \<Rightarrow>
   MetadataRecord \<Rightarrow> error + (string \<rightharpoonup> (string \<rightharpoonup> 'c MaterialNode))" where
  "add_material guid_map table material_metadata =
     (case material_metadata ''id'' of
        None \<Rightarrow> Inl (KeyError ''id'')
      | Some material_id \<Rightarrow>
          if material_id = ''empty_material'' then Inr table
          else
     (case material_metadata ''GUID'' of
        None \<Rightarrow> Inl (KeyError ''GUID'')
      | Some material_guid \<Rightarrow>
     (case guid_map material_guid of
        None \<Rightarrow> Inl (KeyError material_guid)
      | Some root_node \<Rightarrow>
     (case metadata root_node of
        None \<Rightarrow> Inl TypeError
      | Some root_metadata \<Rightarrow>
     (case root_metadata ''id'' of
        None \<Rightarrow> Inl (KeyError ''id'')
      | Some root_material_id \<Rightarrow>
     (case material_metadata ''definition'' of
        None \<Rightarrow> Inl (KeyError ''definition'')
      | Some definition_id \<Rightarrow>
     (case material_metadata ''approximate_diameter'' of
        None \<Rightarrow> Inl (KeyError ''approximate_diameter'')
      | Some approximate_diameter \<Rightarrow>
          (let machine_variant_material_map =
                 (case table approximate_diameter of None \<Rightarrow> Map.empty | Some b \<Rightarrow> b);
               machine_node =
                 (case machine_variant_material_map definition_id of
                    None \<Rightarrow> new_MaterialNode None
                  | Some n \<Rightarrow> n);
               store = (\<lambda>n. table(approximate_diameter \<mapsto>
                              machine_variant_material_map(definition_id \<mapsto> n)));
               machine_level =
                 store (set_material_map machine_node
                   ((material_map machine_node)(root_material_id \<mapsto>
                      new_MaterialNode (Some material_metadata))))
           in case material_metadata ''variant_name'' of
                None \<Rightarrow> Inr machine_level
              | Some variant \<Rightarrow>
                  if variant = [] then Inr machine_level
                  else
                    (let variant_node =
                           (case children_map machine_node variant of
                              None \<Rightarrow> new_MaterialNode None
                            | Some n \<Rightarrow> n)
                     in if material_map variant_node root_material_id = None
                        then Inr (store (set_children_map machine_node
                               ((children_map machine_node)(variant \<mapsto>
                                  set_material_map variant_node
                                    ((material_map variant_node)(root_material_id \<mapsto>
                                       new_MaterialNode (Some material_metadata)))))))
                        else Inl (RuntimeError (duplicate_material_message
                                    variant definition_id material_id)))))))))))"

definition MaterialManager_initialize :: "'c MaterialManager \<Rightarrow> error + 'c MaterialManager" where
  "MaterialManager_initialize self =
     (let material_metadata_list =
            findContainersMetadata (container_registry self) ''material''
      in case for_each add_root_material (guid_to_root_materials_map self)
                material_metadata_list of
           Inl e \<Rightarrow> Inl e
         | Inr guid_map \<Rightarrow>
             (case for_each (add_material guid_map)
                     (diameter_machine_variant_material_map self) material_metadata_list of
                Inl e \<Rightarrow> Inl e
              | Inr table \<Rightarrow>
                  Inr (self\<lparr>guid_to_root_materials_map := guid_map,
                            diameter_machine_variant_material_map := table\<rparr>)))"

subsection \<open>The diameter bucket key\<close>

text \<open>
  \<open>round(diameter)\<close> on a finite float is the integer nearest to its exact value, a tie
  going to the even neighbour; the float is modelled by the real number it denotes
  (\<open>nan\<close> and the infinities, on which \<open>round\<close> raises, are left out).  \<open>str\<close> of an
  integer is its decimal rendering.
\<close>

definition py_round :: "real \<Rightarrow> int" where
  "py_round x =
     (let f = \<lfloor>x\<rfloor>; r = x - of_int f
      in if r < 1 / 2 then f
         else if 1 / 2 < r then f + 1
         else if even f then f else f + 1)"

fun nat_digits :: "nat \<Rightarrow> string" where
  "nat_digits n =
     (if n < 10 then [''0123456789'' ! n]
      else nat_digits (n div 10) @ [''0123456789'' ! (n mod 10)])"

definition py_str :: "int \<Rightarrow> string" where
  "py_str i = (if i < 0 then ''-'' @ nat_digits (nat (- i)) else nat_digits (nat i))"

subsection \<open>Lazy loading and the queries\<close>

text \<open>
  \<open>_getContainerOnNode\<close>: returns the outcome and the node after the call.  The cache
  slot is written only after a non-empty registry answer.
\<close>

definition getContainerOnNode ::
  "'c MaterialManager \<Rightarrow> 'c MaterialNode \<Rightarrow> (error + 'c) \<times> 'c MaterialNode" where
  "getContainerOnNode self node =
     (case container node of
        Some c \<Rightarrow> (Inr c, node)
      | None \<Rightarrow>
          (case metadata node of
             None \<Rightarrow> (Inl TypeError, node)
           | Some md \<Rightarrow>
               (case md ''id'' of
                  None \<Rightarrow> (Inl (KeyError ''id''), node)
                | Some container_id \<Rightarrow>
                    (let container_list =
                           findInstanceContainers (container_registry self) container_id;
                         looked = set_lookups node (Suc (lookups node))
                     in case container_list of
                          [] \<Rightarrow> (Inl (RuntimeError (material_lazy_load_message container_id)),
                                 looked)
                        | c # _ \<Rightarrow> (Inr c, set_container looked (Some c))))))"

text \<open>The outcome of a query that returns an optional container.\<close>

definition found :: "error + 'c \<Rightarrow> error + 'c option" where
  "found r = (case r of Inl e \<Rightarrow> Inl e | Inr c \<Rightarrow> Inr (Some c))"

definition getMaterialByGUID ::
  "'c MaterialManager \<Rightarrow> string \<Rightarrow> (error + 'c option) \<times> 'c MaterialManager" where
  "getMaterialByGUID self guid =
     (case guid_to_root_materials_map self guid of
        None \<Rightarrow> (Inr None, self)
      | Some node \<Rightarrow>
          (let (r, node') = getContainerOnNode self node
           in (found r,
               self\<lparr>guid_to_root_materials_map :=
                      (guid_to_root_materials_map self)(guid \<mapsto> node')\<rparr>)))"

text \<open>
  \<open>getAvailableMaterials\<close>.  The local \<open>material_id_metadata_dict\<close> starts as the empty
  dict, so the test \<open>material_id_metadata_dict is None\<close> that guards the machine-level
  fallback is modelled on an optional value that is never \<open>None\<close>.  The function returns
  that local as it is.
\<close>

definition getAvailableMaterials ::
  "'c MaterialManager \<Rightarrow> string \<Rightarrow> string option \<Rightarrow> real \<Rightarrow>
   (string \<rightharpoonup> MetadataRecord option) option" where
  "getAvailableMaterials self machine_definition_id variant_name diameter =
     (let rounded_diameter = py_str (py_round diameter)
      in case diameter_machine_variant_material_map self rounded_diameter of
           None \<Rightarrow> Some Map.empty
         | Some machine_variant_material_map \<Rightarrow>
             (let machine_node =
                    (case machine_variant_material_map machine_definition_id of
                       None \<Rightarrow> machine_variant_material_map (default_machine_definition_id self)
                     | Some n \<Rightarrow> Some n);
                  variant_node =
                    (case (variant_name, machine_node) of
                       (Some variant, Some mn) \<Rightarrow> children_map mn variant
                     | _ \<Rightarrow> None);
                  material_id_metadata_dict =
                    (case variant_node of
                       Some vn \<Rightarrow> Some (\<lambda>mid. map_option metadata (material_map vn mid))
                     | None \<Rightarrow> Some Map.empty)
              in case material_id_metadata_dict of
                   None \<Rightarrow>
                     (case machine_node of
                        Some mn \<Rightarrow> Some (\<lambda>mid. map_option metadata (material_map mn mid))
                      | None \<Rightarrow> None)
                 | Some d \<Rightarrow> Some d))"

text \<open>
  \<open>getMaterial\<close>.  \<open>machine_key\<close> is the key under which the machine node was found
  (the given id, or the default id after the fallback): the node loaded by
  \<open>_getContainerOnNode\<close> is stored back along that path.
\<close>

definition getMaterial ::
  "'c MaterialManager \<Rightarrow> string \<Rightarrow> string option \<Rightarrow> real \<Rightarrow> string \<Rightarrow>
   (error + 'c option) \<times> 'c MaterialManager" where
  "getMaterial self machine_definition_id variant_name diameter root_material_id =
     (let rounded_diameter = py_str (py_round diameter)
      in case diameter_machine_variant_material_map self rounded_diameter of
           None \<Rightarrow> (Inr None, self)
         | Some machine_variant_material_map \<Rightarrow>
             (let machine_key =
                    (case machine_variant_material_map machine_definition_id of
                       None \<Rightarrow> default_machine_definition_id self
                     | Some n \<Rightarrow> machine_definition_id)
              in case machine_variant_material_map machine_key of
                   None \<Rightarrow> (Inr None, self)
                 | Some machine_node \<Rightarrow>
                     (let store = (\<lambda>n. self\<lparr>diameter_machine_variant_material_map :=
                                     (diameter_machine_variant_material_map self)(rounded_diameter \<mapsto>
                                        machine_variant_material_map(machine_key \<mapsto> n))\<rparr>);
                          variant_node =
                            (case variant_name of
                               None \<Rightarrow> None
                             | Some variant \<Rightarrow>
                                 map_option (Pair variant) (children_map machine_node variant));
                          variant_material =
                            (case variant_node of
                               None \<Rightarrow> None
                             | Some (variant, vn) \<Rightarrow>
                                 map_option (Pair (variant, vn)) (material_map vn root_material_id))
                      in case variant_material of
                           Some ((variant, vn), material_node) \<Rightarrow>
                             (let (r, node') = getContainerOnNode self material_node
                              in (found r,
                                  store (set_children_map machine_node
                                    ((children_map machine_node)(variant \<mapsto>
                                       set_material_map vn
                                         ((material_map vn)(root_material_id \<mapsto> node')))))))
                         | None \<Rightarrow>
                             (case material_map machine_node root_material_id of
                                None \<Rightarrow> (Inr None, self)
                              | Some material_node \<Rightarrow>
                                  (let (r, node') = getContainerOnNode self material_node
                                   in (found r,
                                       store (set_material_map machine_node
                                         ((material_map machine_node)(root_material_id \<mapsto>
                                            node')))))))))"

section \<open>The managers in service\<close>

text \<open>
  After \<open>initialize()\<close> a manager only answers queries.  Of the material queries,
  \<open>getMaterial\<close> and \<open>getMaterialByGUID\<close> can change the manager (they fill cache
  slots); \<open>getAvailableMaterials\<close> cannot.  A manager is \<^emph>\<open>initialized\<close> when it is the
  result of a successful \<open>initialize()\<close> on a freshly constructed manager, followed by
  any number of queries, whether they returned or raised.
\<close>

datatype query = GetMaterial string "string option" real string | GetMaterialByGUID string

fun run_query :: "'c MaterialManager \<Rightarrow> query \<Rightarrow> (error + 'c option) \<times> 'c MaterialManager" where
  "run_query self (GetMaterial machine_definition_id variant_name diameter root_material_id) =
     getMaterial self machine_definition_id variant_name diameter root_material_id"
| "run_query self (GetMaterialByGUID guid) = getMaterialByGUID self guid"

inductive MaterialManager_initialized :: "'c MaterialManager \<Rightarrow> bool" where
  built: "MaterialManager_initialize (MaterialManager_init registry) = Inr self \<Longrightarrow>
     MaterialManager_initialized self"
| queried: "MaterialManager_initialized self \<Longrightarrow>
     MaterialManager_initialized (snd (run_query self q))"

inductive VariantManager_initialized :: "'c VariantManager \<Rightarrow> bool" where
  variants_built: "VariantManager_initialize (VariantManager_init registry) = Inr self \<Longrightarrow>
     VariantManager_initialized self"
| variant_queried: "VariantManager_initialized self \<Longrightarrow>
     VariantManager_initialized (snd (getVariant self machine_type_name variant_name variant_type))"

section \<open>Leaves and their paths\<close>

text \<open>
  The nodes that carry a metadata record are the root nodes of the GUID table, the
  machine-level leaves and the variant-level leaves.  Each is reached by one path of
  keys, which stands for the identity of the node object.  The functions of this
  section are not in the source: they name the leaf that a query resolves and what
  lazy loading does to it, so that properties of single nodes can be stated.
\<close>

datatype node_ref =
    RootMaterial string
  | MachineMaterial string string string
  | VariantMaterial string string string string

definition machine_leaf ::
  "(string \<rightharpoonup> (string \<rightharpoonup> 'c MaterialNode)) \<Rightarrow> string \<Rightarrow> string \<Rightarrow> string \<Rightarrow>
   'c MaterialNode option" where
  "machine_leaf table diameter_key machine root_id =
     (case table diameter_key of
        None \<Rightarrow> None
      | Some bucket \<Rightarrow>
          (case bucket machine of
             None \<Rightarrow> None
           | Some machine_node \<Rightarrow> material_map machine_node root_id))"

definition variant_leaf ::
  "(string \<rightharpoonup> (string \<rightharpoonup> 'c MaterialNode)) \<Rightarrow> string \<Rightarrow> string \<Rightarrow> string \<Rightarrow> string \<Rightarrow>
   'c MaterialNode option" where
  "variant_leaf table diameter_key machine variant root_id =
     (case table diameter_key of
        None \<Rightarrow> None
      | Some bucket \<Rightarrow>
          (case bucket machine of
             None \<Rightarrow> None
           | Some machine_node \<Rightarrow>
               (case children_map machine_node variant of
                  None \<Rightarrow> None
                | Some variant_node \<Rightarrow> material_map variant_node root_id)))"

fun node_at :: "'c MaterialManager \<Rightarrow> node_ref \<Rightarrow> 'c MaterialNode option" where
  "node_at self (RootMaterial guid) = guid_to_root_materials_map self guid"
| "node_at self (MachineMaterial diameter_key machine root_id) =
     machine_leaf (diameter_machine_variant_material_map self) diameter_key machine root_id"
| "node_at self (VariantMaterial diameter_key machine variant root_id) =
     variant_leaf (diameter_machine_variant_material_map self) diameter_key machine variant
       root_id"

text \<open>Replacing the leaf at a path; a path that leads nowhere changes nothing.\<close>

fun put_node :: "'c MaterialManager \<Rightarrow> node_ref \<Rightarrow> 'c MaterialNode \<Rightarrow> 'c MaterialManager" where
  "put_node self (RootMaterial guid) node =
     (case guid_to_root_materials_map self guid of
        None \<Rightarrow> self
      | Some _ \<Rightarrow>
          self\<lparr>guid_to_root_materials_map := (guid_to_root_materials_map self)(guid \<mapsto> node)\<rparr>)"
| "put_node self (MachineMaterial diameter_key machine root_id) node =
     (case diameter_machine_variant_material_map self diameter_key of
        None \<Rightarrow> self
      | Some bucket \<Rightarrow>
          (case bucket machine of
             None \<Rightarrow> self
           | Some machine_node \<Rightarrow>
               (case material_map machine_node root_id of
                  None \<Rightarrow> self
                | Some _ \<Rightarrow>
                    self\<lparr>diameter_machine_variant_material_map :=
                      (diameter_machine_variant_material_map self)(diameter_key \<mapsto>
                         bucket(machine \<mapsto> set_material_map machine_node
                           ((material_map machine_node)(root_id \<mapsto> node))))\<rparr>)))"
| "put_node self (VariantMaterial diameter_key machine variant root_id) node =
     (case diameter_machine_variant_material_map self diameter_key of
        None \<Rightarrow> self
      | Some bucket \<Rightarrow>
          (case bucket machine of
             None \<Rightarrow> self
           | Some machine_node \<Rightarrow>
               (case children_map machine_node variant of
                  None \<Rightarrow> self
                | Some variant_node \<Rightarrow>
                    (case material_map variant_node root_id of
                       None \<Rightarrow> self
                     | Some _ \<Rightarrow>
                         self\<lparr>diameter_machine_variant_material_map :=
                           (diameter_machine_variant_material_map self)(diameter_key \<mapsto>
                              bucket(machine \<mapsto> set_children_map machine_node
                                ((children_map machine_node)(variant \<mapsto>
                                   set_material_map variant_node
                                     ((material_map variant_node)(root_id \<mapsto> node))))))\<rparr>))))"

text \<open>Lazy loading of the leaf at a path, as a query does it.\<close>

definition load_node ::
  "'c MaterialManager \<Rightarrow> node_ref \<Rightarrow> (error + 'c option) \<times> 'c MaterialManager" where
  "load_node self p =
     (case node_at self p of
        None \<Rightarrow> (Inr None, self)
      | Some node \<Rightarrow>
          (let (r, node') = getContainerOnNode self node in (found r, put_node self p node')))"

text \<open>
  The leaf that a query resolves: for \<open>getMaterial\<close> the variant-level leaf when the
  variant node exists and holds the root material id, else the machine-level leaf, under
  the machine id given or, when the bucket has no such machine, under the default one.
\<close>

fun resolved_node :: "'c MaterialManager \<Rightarrow> query \<Rightarrow> node_ref option" where
  "resolved_node self (GetMaterialByGUID guid) =
     (case guid_to_root_materials_map self guid of
        None \<Rightarrow> None
      | Some _ \<Rightarrow> Some (RootMaterial guid))"
| "resolved_node self (GetMaterial machine_definition_id variant_name diameter root_material_id) =
     (let table = diameter_machine_variant_material_map self;
          key = py_str (py_round diameter)
      in case table key of
           None \<Rightarrow> None
         | Some bucket \<Rightarrow>
             (let machine =
                    (case bucket machine_definition_id of
                       None \<Rightarrow> default_machine_definition_id self
                     | Some _ \<Rightarrow> machine_definition_id);
                  at_machine =
                    (case machine_leaf table key machine root_material_id of
                       None \<Rightarrow> None
                     | Some _ \<Rightarrow> Some (MachineMaterial key machine root_material_id))
              in case variant_name of
                   None \<Rightarrow> at_machine
                 | Some variant \<Rightarrow>
                     (case variant_leaf table key machine variant root_material_id of
                        None \<Rightarrow> at_machine
                      | Some _ \<Rightarrow> Some (VariantMaterial key machine variant root_material_id))))"

section \<open>What the build reads from a record\<close>

text \<open>
  The functions of this section are not in the source either; they name what the loops
  of the two \<open>initialize()\<close> methods compute from one record.  A record is a root
  record of a GUID when it is not the sentinel \<open>empty_material\<close>, carries that GUID and
  names itself as its \<open>base_file\<close>.
\<close>

definition root_record_of :: "string \<Rightarrow> MetadataRecord \<Rightarrow> bool" where
  "root_record_of guid md =
     (case md ''id'' of
        None \<Rightarrow> False
      | Some material_id \<Rightarrow>
          material_id \<noteq> ''empty_material'' \<and> md ''GUID'' = Some guid \<and>
          md ''base_file'' = Some material_id)"

text \<open>
  The key under which the second loop of \<open>MaterialManager.initialize\<close> files a record:
  approximate diameter, machine definition, variant name (\<open>None\<close> for a machine-level
  record) and the id of the root record of its GUID.  There is no key for the sentinel
  and for a record on which a subscript raises.
\<close>

definition material_key ::
  "(string \<rightharpoonup> 'c MaterialNode) \<Rightarrow> MetadataRecord \<Rightarrow>
   (string \<times> string \<times> string option \<times> string) option" where
  "material_key guid_map md =
     (case md ''id'' of
        None \<Rightarrow> None
      | Some material_id \<Rightarrow>
          if material_id = ''empty_material'' then None
          else
     (case md ''GUID'' of
        None \<Rightarrow> None
      | Some material_guid \<Rightarrow>
     (case guid_map material_guid of
        None \<Rightarrow> None
      | Some root_node \<Rightarrow>
     (case metadata root_node of
        None \<Rightarrow> None
      | Some root_metadata \<Rightarrow>
     (case root_metadata ''id'' of
        None \<Rightarrow> None
      | Some root_material_id \<Rightarrow>
     (case md ''definition'' of
        None \<Rightarrow> None
      | Some definition_id \<Rightarrow>
     (case md ''approximate_diameter'' of
        None \<Rightarrow> None
      | Some approximate_diameter \<Rightarrow>
          Some (approximate_diameter, definition_id,
                (case md ''variant_name'' of
                   None \<Rightarrow> None
                 | Some variant \<Rightarrow> if variant = [] then None else Some variant),
                root_material_id))))))))"

text \<open>
  The key under which \<open>VariantManager.initialize\<close> files a record: machine definition
  and variant name, for a record that is not excluded and has the four fields read.
\<close>

definition variant_key :: "string list \<Rightarrow> MetadataRecord \<Rightarrow> (string \<times> string) option" where
  "variant_key exclude md =
     (case md ''id'' of
        None \<Rightarrow> None
      | Some variant_id \<Rightarrow>
          if variant_id \<in> set exclude then None
          else
            (case (md ''name'', md ''definition'', md ''hardware_type'') of
               (Some variant_name, Some variant_definition, Some _) \<Rightarrow>
                 Some (variant_definition, variant_name)
             | _ \<Rightarrow> None))"

text \<open>
  Filing a leaf under a key, as the second loop does it: the bucket and the machine node
  (and, for a variant-level leaf, the variant node) are created when missing.
\<close>

definition insert_machine_leaf ::
  "(string \<rightharpoonup> (string \<rightharpoonup> 'c MaterialNode)) \<Rightarrow> string \<Rightarrow> string \<Rightarrow> string \<Rightarrow>
   'c MaterialNode \<Rightarrow> (string \<rightharpoonup> (string \<rightharpoonup> 'c MaterialNode))" where
  "insert_machine_leaf table diameter_key machine root_id leaf =
     (let bucket = (case table diameter_key of None \<Rightarrow> Map.empty | Some b \<Rightarrow> b);
          machine_node = (case bucket machine of None \<Rightarrow> new_MaterialNode None | Some n \<Rightarrow> n)
      in table(diameter_key \<mapsto> bucket(machine \<mapsto>
           set_material_map machine_node ((material_map machine_node)(root_id \<mapsto> leaf)))))"

definition insert_variant_leaf ::
  "(string \<rightharpoonup> (string \<rightharpoonup> 'c MaterialNode)) \<Rightarrow> string \<Rightarrow> string \<Rightarrow> string \<Rightarrow> string \<Rightarrow>
   'c MaterialNode \<Rightarrow> (string \<rightharpoonup> (string \<rightharpoonup> 'c MaterialNode))" where
  "insert_variant_leaf table diameter_key machine variant root_id leaf =
     (let bucket = (case table diameter_key of None \<Rightarrow> Map.empty | Some b \<Rightarrow> b);
          machine_node = (case bucket machine of None \<Rightarrow> new_MaterialNode None | Some n \<Rightarrow> n);
          variant_node =
            (case children_map machine_node variant of
               None \<Rightarrow> new_MaterialNode None
             | Some n \<Rightarrow> n)
      in table(diameter_key \<mapsto> bucket(machine \<mapsto>
           set_children_map machine_node ((children_map machine_node)(variant \<mapsto>
             set_material_map variant_node ((material_map variant_node)(root_id \<mapsto> leaf)))))))"

text \<open>The entry of the variant table for a machine and a variant name.\<close>

definition variant_entry ::
  "(string \<rightharpoonup> (string \<rightharpoonup> 'c variant_dict)) \<Rightarrow> string \<Rightarrow> string \<Rightarrow> 'c variant_dict option" where
  "variant_entry table machine variant_name =
     (case table machine of None \<Rightarrow> None | Some machine_dict \<Rightarrow> machine_dict variant_name)"

section \<open>Example data\<close>

text \<open>
  The records of the scenario in the specification: a generic PLA root material for the
  default machine, its machine-specific and its variant-specific profile for the
  Ultimaker 3, and one nozzle variant.  The example registry hands out, as the container
  of an id, the id itself.
\<close>

definition generic_pla :: MetadataRecord where
  "generic_pla =
     [''id'' \<mapsto> ''generic_pla'', ''GUID'' \<mapsto> ''G1'', ''base_file'' \<mapsto> ''generic_pla'',
      ''definition'' \<mapsto> ''fdmprinter'', ''approximate_diameter'' \<mapsto> ''3'']"

definition generic_pla_ultimaker3 :: MetadataRecord where
  "generic_pla_ultimaker3 =
     [''id'' \<mapsto> ''generic_pla_ultimaker3'', ''GUID'' \<mapsto> ''G1'',
      ''base_file'' \<mapsto> ''generic_pla'', ''definition'' \<mapsto> ''ultimaker3'',
      ''approximate_diameter'' \<mapsto> ''3'']"

definition generic_pla_um3_aa04 :: MetadataRecord where
  "generic_pla_um3_aa04 =
     [''id'' \<mapsto> ''generic_pla_um3_aa04'', ''GUID'' \<mapsto> ''G1'',
      ''base_file'' \<mapsto> ''generic_pla'', ''definition'' \<mapsto> ''ultimaker3'',
      ''variant_name'' \<mapsto> ''AA 0.4'', ''approximate_diameter'' \<mapsto> ''3'']"

definition ultimaker3_aa04 :: MetadataRecord where
  "ultimaker3_aa04 =
     [''id'' \<mapsto> ''ultimaker3_aa04'', ''name'' \<mapsto> ''AA 0.4'',
      ''definition'' \<mapsto> ''ultimaker3'', ''hardware_type'' \<mapsto> ''nozzle'']"

definition example_registry :: "string ContainerRegistry" where
  "example_registry =
     \<lparr>findContainersMetadata =
        (\<lambda>t. if t = ''material''
             then [generic_pla, generic_pla_ultimaker3, generic_pla_um3_aa04]
             else if t = ''variant'' then [ultimaker3_aa04] else []),
      findInstanceContainers =
        (\<lambda>i. if i \<in> {''generic_pla'', ''generic_pla_ultimaker3'', ''generic_pla_um3_aa04'',
                        ''ultimaker3_aa04''}
             then [i] else [])\<rparr>"

text \<open>
  Records that collide: a second root record with the GUID of \<open>generic_pla\<close> (also a
  second machine-level record of the default machine for the root \<open>generic_pla\<close>), a
  second profile for the same machine, variant and root, and a second variant of the
  same machine and name.
\<close>

definition generic_pla_copy :: MetadataRecord where
  "generic_pla_copy =
     [''id'' \<mapsto> ''generic_pla_copy'', ''GUID'' \<mapsto> ''G1'',
      ''base_file'' \<mapsto> ''generic_pla_copy'', ''definition'' \<mapsto> ''fdmprinter'',
      ''approximate_diameter'' \<mapsto> ''3'']"

definition generic_pla_um3_aa04_copy :: MetadataRecord where
  "generic_pla_um3_aa04_copy =
     [''id'' \<mapsto> ''generic_pla_um3_aa04_copy'', ''GUID'' \<mapsto> ''G1'',
      ''base_file'' \<mapsto> ''generic_pla'', ''definition'' \<mapsto> ''ultimaker3'',
      ''variant_name'' \<mapsto> ''AA 0.4'', ''approximate_diameter'' \<mapsto> ''3'']"

definition ultimaker3_aa04_plate :: MetadataRecord where
  "ultimaker3_aa04_plate =
     [''id'' \<mapsto> ''ultimaker3_aa04_plate'', ''name'' \<mapsto> ''AA 0.4'',
      ''definition'' \<mapsto> ''ultimaker3'', ''hardware_type'' \<mapsto> ''buildplate'']"

definition two_roots_registry :: "string ContainerRegistry" where
  "two_roots_registry =
     \<lparr>findContainersMetadata =
        (\<lambda>t. if t = ''material'' then [generic_pla, generic_pla_copy] else []),
      findInstanceContainers =
        (\<lambda>i. if i \<in> {''generic_pla'', ''generic_pla_copy''} then [i] else [])\<rparr>"

definition two_roots_materials :: "string MaterialManager" where
  "two_roots_materials =
     \<lparr>container_registry = two_roots_registry,
      guid_to_root_materials_map = [''G1'' \<mapsto> new_MaterialNode (Some generic_pla)],
      diameter_machine_variant_material_map =
        [''3'' \<mapsto>
           [''fdmprinter'' \<mapsto>
              MaterialNode None None
                [''generic_pla'' \<mapsto> new_MaterialNode (Some generic_pla_copy)] Map.empty 0]],
      default_machine_definition_id = ''fdmprinter''\<rparr>"

definition colliding_registry :: "string ContainerRegistry" where
  "colliding_registry =
     \<lparr>findContainersMetadata =
        (\<lambda>t. if t = ''material''
             then [generic_pla, generic_pla_um3_aa04, generic_pla_ultimaker3,
                   generic_pla_um3_aa04_copy]
             else if t = ''variant'' then [ultimaker3_aa04, ultimaker3_aa04_plate] else []),
      findInstanceContainers = (\<lambda>i. [i])\<rparr>"

text \<open>The two indices that \<open>initialize()\<close> builds from the example registry.\<close>

definition example_materials :: "string MaterialManager" where
  "example_materials =
     \<lparr>container_registry = example_registry,
      guid_to_root_materials_map = [''G1'' \<mapsto> new_MaterialNode (Some generic_pla)],
      diameter_machine_variant_material_map =
        [''3'' \<mapsto>
           [''fdmprinter'' \<mapsto>
              MaterialNode None None
                [''generic_pla'' \<mapsto> new_MaterialNode (Some generic_pla)] Map.empty 0,
            ''ultimaker3'' \<mapsto>
              MaterialNode None None
                [''generic_pla'' \<mapsto> new_MaterialNode (Some generic_pla_ultimaker3)]
                [''AA 0.4'' \<mapsto>
                   MaterialNode None None
                     [''generic_pla'' \<mapsto> new_MaterialNode (Some generic_pla_um3_aa04)]
                     Map.empty 0]
                0]],
      default_machine_definition_id = ''fdmprinter''\<rparr>"

definition example_variants :: "string VariantManager" where
  "example_variants =
     \<lparr>variant_container_registry = example_registry,
      machine_to_variant_dict_map =
        [''ultimaker3'' \<mapsto>
           [''AA 0.4'' \<mapsto>
              \<lparr>variant_metadata = ultimaker3_aa04, variant_container = None,
               variant_lookups = 0\<rparr>]],
      exclude_variant_id_list = [''empty_variant'']\<rparr>"

section \<open>Evaluating the examples\<close>

lemmas example_defs = example_registry_def generic_pla_def generic_pla_ultimaker3_def
  generic_pla_um3_aa04_def ultimaker3_aa04_def

lemmas material_build_defs = MaterialManager_initialize_def MaterialManager_init_def
  add_root_material_def add_material_def new_MaterialNode_def set_material_map_def
  set_children_map_def Let_def

lemmas variant_build_defs = VariantManager_initialize_def VariantManager_init_def
  add_variant_def Let_def

lemma example_materials_built:
  "MaterialManager_initialize (MaterialManager_init example_registry) = Inr example_materials"
  by (simp add: material_build_defs example_defs example_materials_def)

lemma example_variants_built:
  "VariantManager_initialize (VariantManager_init example_registry) = Inr example_variants"
  by (simp add: variant_build_defs example_defs example_variants_def)

lemma two_roots_materials_built:
  "MaterialManager_initialize (MaterialManager_init two_roots_registry) = Inr two_roots_materials"
  by (simp add: material_build_defs two_roots_registry_def two_roots_materials_def
      generic_pla_def generic_pla_copy_def)

section \<open>VariantManager: the variant type argument\<close>

text \<open>
  C10.  The optional \<open>variant_type\<close> argument has no effect: for any manager, machine
  name and variant name, \<open>getVariantMetadata\<close> and \<open>getVariant\<close> give the same result
  (and leave the same manager) for any two values of the argument.
\<close>

theorem variant_type_ignored:
  "getVariantMetadata self machine_type_name variant_name t1 =
     getVariantMetadata self machine_type_name variant_name t2 \<and>
   getVariant self machine_type_name variant_name t1 =
     getVariant self machine_type_name variant_name t2"
  by (simp add: getVariantMetadata_def getVariant_def)

section \<open>VariantManager: a machine without variants\<close>

text \<open>
  C3 says that \<open>getVariantMetadata\<close> and \<open>getVariant\<close> return an absent result, and
  never raise, when the machine has no entry.  The code subscripts the table with the
  machine name: on the index built from the example registry, which knows the machine
  \<open>ultimaker3\<close> only, both queries for the machine \<open>ultimaker2\<close> raise \<open>KeyError\<close>.
\<close>

theorem getVariant_unknown_machine_raises:
  "VariantManager_initialize (VariantManager_init example_registry) = Inr example_variants \<and>
   getVariantMetadata example_variants ''ultimaker2'' ''AA 0.4'' None =
     Inl (KeyError ''ultimaker2'') \<and>
   getVariant example_variants ''ultimaker2'' ''AA 0.4'' None =
     (Inl (KeyError ''ultimaker2''), example_variants)"
  by (simp add: example_variants_built)
    (simp add: example_variants_def getVariantMetadata_def getVariant_def)

section \<open>MaterialManager: the available materials\<close>

text \<open>
  C2 says that \<open>getAvailableMaterials\<close> returns the machine node's material map when no
  variant node is found.  In the code the machine-level fallback is guarded by a test
  that never succeeds: on the index built from the example registry the default machine
  holds the leaf \<open>generic_pla\<close> in bucket \<open>3\<close>, and the query for that machine without a
  variant returns the empty dict.
\<close>

theorem getAvailableMaterials_drops_machine_materials:
  "\<exists>bucket machine_node leaf.
     MaterialManager_initialize (MaterialManager_init example_registry) = Inr example_materials \<and>
     diameter_machine_variant_material_map example_materials ''3'' = Some bucket \<and>
     bucket ''fdmprinter'' = Some machine_node \<and>
     material_map machine_node ''generic_pla'' = Some leaf \<and>
     metadata leaf = Some generic_pla \<and>
     getAvailableMaterials example_materials ''fdmprinter'' None 2.85 = Some Map.empty"
  by (simp add: example_materials_built)
    (simp add: example_materials_def getAvailableMaterials_def py_str_def py_round_def
      new_MaterialNode_def)

section \<open>MaterialManager: the diameter bucket\<close>

lemma py_round_nearest: "\<bar>x - of_int (py_round x)\<bar> \<le> 1 / 2"
  unfolding py_round_def Let_def by (auto simp: abs_le_iff)

lemma py_round_between:
  assumes "of_int n - 1 / 2 < x" "x < of_int n + 1 / 2"
  shows "py_round x = n"
proof -
  have "\<bar>x - of_int (py_round x)\<bar> \<le> 1 / 2" by (rule py_round_nearest)
  with assms have "of_int (py_round x) < (of_int n :: real) + 1" "(of_int n :: real) < of_int (py_round x) + 1"
    by linarith+
  then have "py_round x < n + 1" "n < py_round x + 1"
    by linarith+
  then show ?thesis by simp
qed

lemma py_str_3: "py_str 3 = ''3''"
  by (simp add: py_str_def)

lemma py_str_2: "py_str 2 = ''2''"
  by (simp add: py_str_def)

lemma getMaterial_key:
  "py_str (py_round d) = py_str (py_round d') \<Longrightarrow>
   getMaterial self m v d r = getMaterial self m v d' r"
  by (simp add: getMaterial_def)

lemma getAvailableMaterials_key:
  "py_str (py_round d) = py_str (py_round d') \<Longrightarrow>
   getAvailableMaterials self m v d = getAvailableMaterials self m v d'"
  by (simp add: getAvailableMaterials_def)

lemma no_bucket:
  "diameter_machine_variant_material_map self (py_str (py_round d)) = None \<Longrightarrow>
   getMaterial self m v d r = (Inr None, self) \<and> getAvailableMaterials self m v d = Some Map.empty"
  by (simp add: getMaterial_def getAvailableMaterials_def)

text \<open>
  C9.  The bucket key of \<open>getMaterial\<close> and \<open>getAvailableMaterials\<close> is the decimal
  rendering of the diameter rounded to a nearest integer: the rounded value is at most
  one half away from the diameter; every diameter strictly between 2.5 and 3.5 (so 2.84,
  2.85 and the floats nearest to them) has key \<open>3\<close> and every diameter strictly between
  1.5 and 2.5 (so 1.75) has key \<open>2\<close>; two diameters with the same key give the same
  results, and a key without a bucket gives the absent result.
\<close>

theorem diameter_bucket_key:
  "\<bar>x - real_of_int (py_round x)\<bar> \<le> 1 / 2 \<and>
   (5 / 2 < x \<and> x < 7 / 2 \<longrightarrow> py_str (py_round x) = ''3'') \<and>
   (3 / 2 < x \<and> x < 5 / 2 \<longrightarrow> py_str (py_round x) = ''2'') \<and>
   py_str (py_round 2.84) = ''3'' \<and> py_str (py_round 2.85) = ''3'' \<and>
   py_str (py_round 1.75) = ''2'' \<and>
   (py_str (py_round d) = py_str (py_round x) \<longrightarrow>
      getMaterial self m v d r = getMaterial self m v x r \<and>
      getAvailableMaterials self m v d = getAvailableMaterials self m v x) \<and>
   (diameter_machine_variant_material_map self (py_str (py_round x)) = None \<longrightarrow>
      getMaterial self m v x r = (Inr None, self) \<and>
      getAvailableMaterials self m v x = Some Map.empty)"
proof -
  have three: "py_str (py_round y) = ''3''" if "5 / 2 < y" "y < 7 / 2" for y
    using py_round_between [of 3 y] that by (simp add: py_str_3)
  have two: "py_str (py_round y) = ''2''" if "3 / 2 < y" "y < 5 / 2" for y
    using py_round_between [of 2 y] that by (simp add: py_str_2)
  show ?thesis
    using py_round_nearest [of x] three [of x] two [of x] three [of "2.84"] three [of "2.85"]
      two [of "1.75"] getMaterial_key [of d x self m v r]
      getAvailableMaterials_key [of d x self m v] no_bucket [of self x m v r]
    by simp
qed

theorem diameter_bucket_key_witness:
  "py_str (py_round 2.85) = ''3'' \<and> py_str (py_round 1.75) = ''2'' \<and>
   getMaterial example_materials ''ultimaker3'' (Some ''AA 0.4'') 2.84 ''generic_pla'' =
     getMaterial example_materials ''ultimaker3'' (Some ''AA 0.4'') 2.85 ''generic_pla'' \<and>
   getAvailableMaterials example_materials ''ultimaker3'' (Some ''AA 0.4'') 2.84 =
     getAvailableMaterials example_materials ''ultimaker3'' (Some ''AA 0.4'') 2.85 \<and>
   getMaterial example_materials ''fdmprinter'' None 1.75 ''generic_pla'' =
     (Inr None, example_materials) \<and>
   getAvailableMaterials example_materials ''fdmprinter'' None 1.75 = Some Map.empty"
proof -
  have k: "py_str (py_round 2.84) = py_str (py_round 2.85)"
    by (simp add: py_str_def py_round_def)
  have n: "diameter_machine_variant_material_map example_materials (py_str (py_round 1.75)) = None"
    by (simp add: py_str_def py_round_def example_materials_def)
  show ?thesis
    using diameter_bucket_key [of "2.85" "2.84" example_materials "''ultimaker3''"
        "Some ''AA 0.4''" "''generic_pla''"]
      diameter_bucket_key [of "1.75" "1.75" example_materials "''fdmprinter''" None
        "''generic_pla''"] k n
    by simp
qed


section \<open>Nodes, paths and lazy loading\<close>

lemma set_material_map_sel [simp]:
  "metadata (set_material_map n m) = metadata n"
  "container (set_material_map n m) = container n"
  "material_map (set_material_map n m) = m"
  "children_map (set_material_map n m) = children_map n"
  "lookups (set_material_map n m) = lookups n"
  by (simp_all add: set_material_map_def)

lemma set_children_map_sel [simp]:
  "metadata (set_children_map n m) = metadata n"
  "container (set_children_map n m) = container n"
  "material_map (set_children_map n m) = material_map n"
  "children_map (set_children_map n m) = m"
  "lookups (set_children_map n m) = lookups n"
  by (simp_all add: set_children_map_def)

lemma set_container_sel [simp]:
  "metadata (set_container n c) = metadata n"
  "container (set_container n c) = c"
  "material_map (set_container n c) = material_map n"
  "children_map (set_container n c) = children_map n"
  "lookups (set_container n c) = lookups n"
  by (simp_all add: set_container_def)

lemma set_lookups_sel [simp]:
  "metadata (set_lookups n k) = metadata n"
  "container (set_lookups n k) = container n"
  "material_map (set_lookups n k) = material_map n"
  "children_map (set_lookups n k) = children_map n"
  "lookups (set_lookups n k) = k"
  by (simp_all add: set_lookups_def)

lemma set_material_map_same: "set_material_map n (material_map n) = n"
  by (cases n) (simp add: set_material_map_def)

lemma set_children_map_same: "set_children_map n (children_map n) = n"
  by (cases n) (simp add: set_children_map_def)

lemma getMaterialByGUID_load:
  "getMaterialByGUID self guid = load_node self (RootMaterial guid)"
  by (simp add: getMaterialByGUID_def load_node_def split: option.splits prod.splits)

lemma getMaterial_load:
  "getMaterial self m v d r =
     (case resolved_node self (GetMaterial m v d r) of
        None \<Rightarrow> (Inr None, self)
      | Some p \<Rightarrow> load_node self p)"
  by (simp add: getMaterial_def load_node_def machine_leaf_def variant_leaf_def Let_def
      split: option.splits prod.splits)

lemma getContainerOnNode_cached:
  "container node = Some c \<Longrightarrow> getContainerOnNode self node = (Inr c, node)"
  by (simp add: getContainerOnNode_def)

lemma getContainerOnNode_found:
  "container node = None \<Longrightarrow> metadata node = Some md \<Longrightarrow> md ''id'' = Some container_id \<Longrightarrow>
   findInstanceContainers (container_registry self) container_id = c # cs \<Longrightarrow>
   getContainerOnNode self node =
     (Inr c, set_container (set_lookups node (Suc (lookups node))) (Some c))"
  by (simp add: getContainerOnNode_def)

lemma getContainerOnNode_missing:
  "container node = None \<Longrightarrow> metadata node = Some md \<Longrightarrow> md ''id'' = Some container_id \<Longrightarrow>
   findInstanceContainers (container_registry self) container_id = [] \<Longrightarrow>
   getContainerOnNode self node =
     (Inl (RuntimeError (material_lazy_load_message container_id)),
      set_lookups node (Suc (lookups node)))"
  by (simp add: getContainerOnNode_def)

lemma put_node_same: "node_at self p = Some node \<Longrightarrow> put_node self p node = self"
  by (cases p)
    (auto simp: machine_leaf_def variant_leaf_def map_upd_triv set_material_map_same
      set_children_map_same split: option.splits)

lemma load_node_cached:
  "node_at self p = Some node \<Longrightarrow> container node = Some c \<Longrightarrow>
   load_node self p = (Inr (Some c), self)"
  by (simp add: load_node_def getContainerOnNode_cached put_node_same found_def)

lemma load_node_outcome:
  "node_at self p = Some node \<Longrightarrow> fst (load_node self p) = found (fst (getContainerOnNode self node))"
  by (simp add: load_node_def split: prod.splits)

section \<open>MaterialManager: the default machine\<close>

lemma initialize_keeps_settings:
  "MaterialManager_initialize self = Inr s \<Longrightarrow>
   default_machine_definition_id s = default_machine_definition_id self \<and>
   container_registry s = container_registry self"
  by (auto simp: MaterialManager_initialize_def Let_def split: sum.splits)

lemma getMaterial_keeps_settings:
  "default_machine_definition_id (snd (getMaterial self m v d r)) =
     default_machine_definition_id self \<and>
   container_registry (snd (getMaterial self m v d r)) = container_registry self"
  by (simp add: getMaterial_def Let_def split: option.splits prod.splits)

lemma getMaterialByGUID_keeps_settings:
  "default_machine_definition_id (snd (getMaterialByGUID self g)) =
     default_machine_definition_id self \<and>
   container_registry (snd (getMaterialByGUID self g)) = container_registry self"
  by (simp add: getMaterialByGUID_def Let_def split: option.splits prod.splits)

lemma run_query_keeps_settings:
  "default_machine_definition_id (snd (run_query self q)) =
     default_machine_definition_id self \<and>
   container_registry (snd (run_query self q)) = container_registry self"
  by (cases q) (simp_all add: getMaterial_keeps_settings getMaterialByGUID_keeps_settings)

lemma initialized_default:
  "MaterialManager_initialized self \<Longrightarrow> default_machine_definition_id self = ''fdmprinter''"
proof (induction rule: MaterialManager_initialized.induct)
  case (built registry self)
  then show ?case
    using initialize_keeps_settings [of "MaterialManager_init registry" self]
    by (simp add: MaterialManager_init_def)
next
  case (queried self q)
  then show ?case by (simp add: run_query_keeps_settings)
qed

text \<open>
  C5.  In an initialized manager, when the diameter bucket exists and holds no node for
  the given machine id, \<open>getMaterial\<close> and \<open>getAvailableMaterials\<close> answer exactly as
  they do for the default machine id \<open>fdmprinter\<close>; in particular a machine-level leaf
  of the default machine is what \<open>getMaterial\<close> without a variant loads.
\<close>

theorem default_machine_fallback:
  assumes "MaterialManager_initialized self"
    and "diameter_machine_variant_material_map self (py_str (py_round diameter)) = Some bucket"
    and "bucket machine_definition_id = None"
  shows "getMaterial self machine_definition_id variant_name diameter root_material_id =
           getMaterial self ''fdmprinter'' variant_name diameter root_material_id \<and>
         getAvailableMaterials self machine_definition_id variant_name diameter =
           getAvailableMaterials self ''fdmprinter'' variant_name diameter \<and>
         (\<forall>machine_node leaf.
            bucket ''fdmprinter'' = Some machine_node \<and>
            material_map machine_node root_material_id = Some leaf \<longrightarrow>
            fst (getMaterial self machine_definition_id None diameter root_material_id) =
              found (fst (getContainerOnNode self leaf)))"
proof -
  have d: "default_machine_definition_id self = ''fdmprinter''"
    using assms(1) by (rule initialized_default)
  show ?thesis
    using assms(2,3) d
    by (auto simp: getMaterial_def getAvailableMaterials_def Let_def split: option.splits prod.splits)
qed

theorem default_machine_fallback_witness:
  "MaterialManager_initialized example_materials \<and>
   (\<exists>bucket machine_node leaf.
      diameter_machine_variant_material_map example_materials (py_str (py_round 2.85)) =
        Some bucket \<and>
      bucket ''ultimaker2_plus'' = None \<and> bucket ''fdmprinter'' = Some machine_node \<and>
      material_map machine_node ''generic_pla'' = Some leaf \<and>
      metadata leaf = Some generic_pla) \<and>
   getMaterial example_materials ''ultimaker2_plus'' None 2.85 ''generic_pla'' =
     getMaterial example_materials ''fdmprinter'' None 2.85 ''generic_pla'' \<and>
   getAvailableMaterials example_materials ''ultimaker2_plus'' None 2.85 =
     getAvailableMaterials example_materials ''fdmprinter'' None 2.85 \<and>
   fst (getMaterial example_materials ''ultimaker2_plus'' None 2.85 ''generic_pla'') =
     Inr (Some ''generic_pla'')"
proof -
  define leaf :: "string MaterialNode" where "leaf = new_MaterialNode (Some generic_pla)"
  define machine_node where
    "machine_node = MaterialNode None None [''generic_pla'' \<mapsto> leaf] Map.empty 0"
  define bucket where
    "bucket = [''fdmprinter'' \<mapsto> machine_node,
       ''ultimaker3'' \<mapsto>
         MaterialNode None None
           [''generic_pla'' \<mapsto> new_MaterialNode (Some generic_pla_ultimaker3)]
           [''AA 0.4'' \<mapsto>
              MaterialNode None None
                [''generic_pla'' \<mapsto> new_MaterialNode (Some generic_pla_um3_aa04)]
                Map.empty 0]
           0]"
  have i: "MaterialManager_initialized example_materials"
    using example_materials_built by (rule built)
  have b: "diameter_machine_variant_material_map example_materials (py_str (py_round 2.85)) =
      Some bucket"
    by (simp add: py_str_def py_round_def example_materials_def bucket_def machine_node_def
        leaf_def)
  have m: "bucket ''ultimaker2_plus'' = None"
    by (simp add: bucket_def)
  have n: "bucket ''fdmprinter'' = Some machine_node \<and>
      material_map machine_node ''generic_pla'' = Some leaf"
    by (simp add: bucket_def machine_node_def)
  have md: "metadata leaf = Some generic_pla"
    by (simp add: leaf_def new_MaterialNode_def)
  have l: "fst (getContainerOnNode example_materials leaf) = Inr ''generic_pla''"
    by (simp add: getContainerOnNode_def leaf_def new_MaterialNode_def example_materials_def
        example_registry_def generic_pla_def)
  note fallback =
    default_machine_fallback [of example_materials "2.85" bucket "''ultimaker2_plus''" None
      "''generic_pla''", OF i b m]
  have e1: "getMaterial example_materials ''ultimaker2_plus'' None 2.85 ''generic_pla'' =
      getMaterial example_materials ''fdmprinter'' None 2.85 ''generic_pla''"
    using fallback by (rule conjunct1)
  have e2: "getAvailableMaterials example_materials ''ultimaker2_plus'' None 2.85 =
      getAvailableMaterials example_materials ''fdmprinter'' None 2.85"
    using fallback [THEN conjunct2] by (rule conjunct1)
  have "fst (getMaterial example_materials ''ultimaker2_plus'' None 2.85 ''generic_pla'') =
      found (fst (getContainerOnNode example_materials leaf))"
    by (rule fallback [THEN conjunct2, THEN conjunct2, rule_format, of machine_node leaf, OF n])
  then have e3: "fst (getMaterial example_materials ''ultimaker2_plus'' None 2.85
      ''generic_pla'') = Inr (Some ''generic_pla'')"
    by (simp only: l found_def sum.case)
  have ex: "\<exists>bucket machine_node leaf.
      diameter_machine_variant_material_map example_materials (py_str (py_round 2.85)) =
        Some bucket \<and>
      bucket ''ultimaker2_plus'' = None \<and> bucket ''fdmprinter'' = Some machine_node \<and>
      material_map machine_node ''generic_pla'' = Some leaf \<and>
      metadata leaf = Some generic_pla"
    using b m n md by (intro exI [of _ bucket] exI [of _ machine_node] exI [of _ leaf] conjI)
      (rule refl | erule conjunct1 | erule conjunct2 | assumption)+
  show ?thesis
    using i ex e1 e2 e3 by (intro conjI)
qed

section \<open>MaterialManager: variant before machine\<close>

text \<open>
  C4.  Let the bucket of the diameter exist and let the machine node be the one of the
  given machine id or, when the bucket has none, of the default machine id.  If the
  variant node of the given name and the machine node both hold a leaf for the root
  material id, \<open>getMaterial\<close> loads the variant-level leaf: its outcome is that of
  \<open>_getContainerOnNode\<close> on this leaf, so the cached container of the leaf, or the
  first container the registry returns for the leaf's id.  If neither the variant node
  (when a variant is given and found) nor the machine node holds such a leaf, the result
  is absent and the manager is unchanged.
\<close>

theorem variant_material_first:
  assumes "diameter_machine_variant_material_map self (py_str (py_round diameter)) = Some bucket"
    and "bucket machine_definition_id = Some machine_node \<or>
         bucket machine_definition_id = None \<and>
         bucket (default_machine_definition_id self) = Some machine_node"
  shows "(children_map machine_node variant = Some variant_node \<and>
          material_map variant_node root_material_id = Some variant_material \<and>
          material_map machine_node root_material_id = Some machine_material \<longrightarrow>
            fst (getMaterial self machine_definition_id (Some variant) diameter root_material_id) =
              found (fst (getContainerOnNode self variant_material)) \<and>
            (\<forall>c. container variant_material = Some c \<longrightarrow>
               getMaterial self machine_definition_id (Some variant) diameter root_material_id =
                 (Inr (Some c), self)) \<and>
            (\<forall>md container_id c cs.
               container variant_material = None \<and> metadata variant_material = Some md \<and>
               md ''id'' = Some container_id \<and>
               findInstanceContainers (container_registry self) container_id = c # cs \<longrightarrow>
               fst (getMaterial self machine_definition_id (Some variant) diameter
                      root_material_id) = Inr (Some c))) \<and>
         ((\<forall>variant vn. variant_name = Some variant \<and> children_map machine_node variant = Some vn \<longrightarrow>
             material_map vn root_material_id = None) \<and>
          material_map machine_node root_material_id = None \<longrightarrow>
            getMaterial self machine_definition_id variant_name diameter root_material_id =
              (Inr None, self))"
proof -
  define key where "key = py_str (py_round diameter)"
  define machine where "machine =
    (case bucket machine_definition_id of None \<Rightarrow> default_machine_definition_id self
     | Some _ \<Rightarrow> machine_definition_id)"
  have node: "bucket machine = Some machine_node"
    using assms(2) by (auto simp: machine_def)
  have first: "fst (getMaterial self machine_definition_id (Some variant) diameter root_material_id) =
      found (fst (getContainerOnNode self variant_material)) \<and>
      (\<forall>c. container variant_material = Some c \<longrightarrow>
         getMaterial self machine_definition_id (Some variant) diameter root_material_id =
           (Inr (Some c), self)) \<and>
      (\<forall>md container_id c cs.
         container variant_material = None \<and> metadata variant_material = Some md \<and>
         md ''id'' = Some container_id \<and>
         findInstanceContainers (container_registry self) container_id = c # cs \<longrightarrow>
         fst (getMaterial self machine_definition_id (Some variant) diameter
                root_material_id) = Inr (Some c))"
    if v: "children_map machine_node variant = Some variant_node"
      and l: "material_map variant_node root_material_id = Some variant_material"
  proof -
    let ?p = "VariantMaterial key machine variant root_material_id"
    have r: "resolved_node self (GetMaterial machine_definition_id (Some variant) diameter
        root_material_id) = Some ?p"
      using assms(1) node v l
      by (simp add: key_def machine_def variant_leaf_def Let_def)
    have a: "node_at self ?p = Some variant_material"
      using assms(1) node v l by (simp add: key_def variant_leaf_def)
    have g: "getMaterial self machine_definition_id (Some variant) diameter root_material_id =
        load_node self ?p"
      by (simp only: getMaterial_load r option.case)
    show ?thesis
      using load_node_outcome [OF a] load_node_cached [OF a]
      by (auto simp: g getContainerOnNode_found found_def)
  qed
  have none: "getMaterial self machine_definition_id variant_name diameter root_material_id =
      (Inr None, self)"
    if "\<forall>variant vn. variant_name = Some variant \<and> children_map machine_node variant = Some vn \<longrightarrow>
          material_map vn root_material_id = None"
      and "material_map machine_node root_material_id = None"
  proof -
    have "resolved_node self (GetMaterial machine_definition_id variant_name diameter
        root_material_id) = None"
      using assms(1) node that
      by (auto simp: key_def machine_def variant_leaf_def machine_leaf_def Let_def
          split: option.splits)
    then show ?thesis by (simp only: getMaterial_load option.case)
  qed
  show ?thesis using first none by blast
qed

theorem variant_material_first_witness:
  "(\<exists>bucket machine_node variant_node variant_material machine_material.
      diameter_machine_variant_material_map example_materials (py_str (py_round 2.85)) =
        Some bucket \<and>
      bucket ''ultimaker3'' = Some machine_node \<and>
      children_map machine_node ''AA 0.4'' = Some variant_node \<and>
      material_map variant_node ''generic_pla'' = Some variant_material \<and>
      material_map machine_node ''generic_pla'' = Some machine_material \<and>
      metadata variant_material = Some generic_pla_um3_aa04 \<and>
      metadata machine_material = Some generic_pla_ultimaker3 \<and>
      material_map machine_node ''generic_abs'' = None \<and>
      material_map variant_node ''generic_abs'' = None) \<and>
   fst (getMaterial example_materials ''ultimaker3'' (Some ''AA 0.4'') 2.85 ''generic_pla'') =
     Inr (Some ''generic_pla_um3_aa04'') \<and>
   getMaterial example_materials ''ultimaker3'' (Some ''AA 0.4'') 2.85 ''generic_abs'' =
     (Inr None, example_materials)"
proof -
  define vm :: "string MaterialNode" where "vm = new_MaterialNode (Some generic_pla_um3_aa04)"
  define mm :: "string MaterialNode" where "mm = new_MaterialNode (Some generic_pla_ultimaker3)"
  define variant_node where
    "variant_node = MaterialNode None None [''generic_pla'' \<mapsto> vm] Map.empty 0"
  define machine_node where
    "machine_node =
       MaterialNode None None [''generic_pla'' \<mapsto> mm] [''AA 0.4'' \<mapsto> variant_node] 0"
  define bucket where
    "bucket = [''fdmprinter'' \<mapsto>
         MaterialNode None None
           [''generic_pla'' \<mapsto> new_MaterialNode (Some generic_pla)] Map.empty 0,
       ''ultimaker3'' \<mapsto> machine_node]"
  have b: "diameter_machine_variant_material_map example_materials (py_str (py_round 2.85)) =
      Some bucket"
    by (simp add: py_str_def py_round_def example_materials_def bucket_def machine_node_def
        variant_node_def vm_def mm_def)
  have m: "bucket ''ultimaker3'' = Some machine_node"
    by (simp add: bucket_def)
  have m': "bucket ''ultimaker3'' = Some machine_node \<or>
      bucket ''ultimaker3'' = None \<and>
      bucket (default_machine_definition_id example_materials) = Some machine_node"
    using m by (rule disjI1)
  have v: "children_map machine_node ''AA 0.4'' = Some variant_node"
    by (simp add: machine_node_def)
  have lv: "material_map variant_node ''generic_pla'' = Some vm"
    by (simp add: variant_node_def)
  have lm: "material_map machine_node ''generic_pla'' = Some mm"
    by (simp add: machine_node_def)
  have mdv: "metadata vm = Some generic_pla_um3_aa04"
    by (simp add: vm_def new_MaterialNode_def)
  have mdm: "metadata mm = Some generic_pla_ultimaker3"
    by (simp add: mm_def new_MaterialNode_def)
  have nm: "material_map machine_node ''generic_abs'' = None"
    by (simp add: machine_node_def)
  have nv: "material_map variant_node ''generic_abs'' = None"
    by (simp add: variant_node_def)
  have cv: "container vm = None"
    by (simp add: vm_def new_MaterialNode_def)
  have idv: "generic_pla_um3_aa04 ''id'' = Some ''generic_pla_um3_aa04''"
    by (simp add: generic_pla_um3_aa04_def)
  have reg: "findInstanceContainers (container_registry example_materials)
      ''generic_pla_um3_aa04'' = [''generic_pla_um3_aa04'']"
    by (simp add: example_materials_def example_registry_def)
  note first =
    variant_material_first [where self = example_materials and diameter = "2.85"
      and bucket = bucket and machine_definition_id = "''ultimaker3''"
      and machine_node = machine_node and variant = "''AA 0.4''"
      and variant_node = variant_node and variant_material = vm and machine_material = mm
      and variant_name = "Some ''AA 0.4''", OF b m']
  have one: "fst (getMaterial example_materials ''ultimaker3'' (Some ''AA 0.4'') 2.85
      ''generic_pla'') = Inr (Some ''generic_pla_um3_aa04'')"
    using first [of "''generic_pla''", THEN conjunct1, rule_format, OF conjI [OF v conjI [OF lv lm]],
        THEN conjunct2, THEN conjunct2, rule_format, of generic_pla_um3_aa04
        "''generic_pla_um3_aa04''" "''generic_pla_um3_aa04''" "[]"]
      cv mdv idv reg
    by blast
  have absent: "\<forall>variant vn. Some ''AA 0.4'' = Some variant \<and>
        children_map machine_node variant = Some vn \<longrightarrow> material_map vn ''generic_abs'' = None"
    using v nv by auto
  have two: "getMaterial example_materials ''ultimaker3'' (Some ''AA 0.4'') 2.85 ''generic_abs'' =
      (Inr None, example_materials)"
    by (rule first [of "''generic_abs''", THEN conjunct2, rule_format, OF conjI [OF absent nm]])
  have ex: "\<exists>bucket machine_node variant_node variant_material machine_material.
      diameter_machine_variant_material_map example_materials (py_str (py_round 2.85)) =
        Some bucket \<and>
      bucket ''ultimaker3'' = Some machine_node \<and>
      children_map machine_node ''AA 0.4'' = Some variant_node \<and>
      material_map variant_node ''generic_pla'' = Some variant_material \<and>
      material_map machine_node ''generic_pla'' = Some machine_material \<and>
      metadata variant_material = Some generic_pla_um3_aa04 \<and>
      metadata machine_material = Some generic_pla_ultimaker3 \<and>
      material_map machine_node ''generic_abs'' = None \<and>
      material_map variant_node ''generic_abs'' = None"
    using b m v lv lm mdv mdm nm nv
    by (intro exI [of _ bucket] exI [of _ machine_node] exI [of _ variant_node] exI [of _ vm]
        exI [of _ mm] conjI)
  show ?thesis
    using ex one two by (intro conjI)
qed

section \<open>MaterialManager: the GUID table\<close>

lemma add_root_material_lookup:
  assumes "add_root_material guid_map md = Inr guid_map'"
  shows "guid_map' guid =
     (case guid_map guid of
        Some node \<Rightarrow> Some node
      | None \<Rightarrow> if root_record_of guid md then Some (new_MaterialNode (Some md)) else None)"
  using assms
  by (auto simp: add_root_material_def root_record_of_def Let_def
      split: option.splits if_splits)

lemma for_each_add_root_material:
  "for_each add_root_material guid_map mds = Inr guid_map' \<Longrightarrow>
   guid_map' guid =
     (case guid_map guid of
        Some node \<Rightarrow> Some node
      | None \<Rightarrow> map_option (\<lambda>md. new_MaterialNode (Some md)) (find (root_record_of guid) mds))"
proof (induction mds arbitrary: guid_map)
  case Nil
  then show ?case by (simp split: option.splits)
next
  case (Cons md mds)
  from Cons.prems obtain g1 where
    step: "add_root_material guid_map md = Inr g1" and
    rest: "for_each add_root_material g1 mds = Inr guid_map'"
    by (auto split: sum.splits)
  show ?case
    using Cons.IH [OF rest] add_root_material_lookup [OF step, of guid]
    by (simp split: option.splits if_splits)
qed

lemma add_root_material_total:
  assumes "md ''id'' \<noteq> None" and "md ''id'' \<noteq> Some ''empty_material'' \<longrightarrow> md ''GUID'' \<noteq> None"
  shows "\<exists>g. add_root_material guid_map md = Inr g"
  using assms by (auto simp: add_root_material_def Let_def split: option.splits)

lemma for_each_add_root_material_total:
  "\<forall>md \<in> set mds. md ''id'' \<noteq> None \<and>
      (md ''id'' \<noteq> Some ''empty_material'' \<longrightarrow> md ''GUID'' \<noteq> None) \<Longrightarrow>
   \<exists>g. for_each add_root_material guid_map mds = Inr g"
proof (induction mds arbitrary: guid_map)
  case Nil
  then show ?case by simp
next
  case (Cons md mds)
  then obtain g1 where "add_root_material guid_map md = Inr g1"
    using add_root_material_total [of md guid_map] by auto
  moreover obtain g2 where "for_each add_root_material g1 mds = Inr g2"
    using Cons.IH [of g1] Cons.prems by auto
  ultimately show ?case by simp
qed

lemma initialize_guid_map:
  assumes "MaterialManager_initialize self = Inr self'"
  shows "for_each add_root_material (guid_to_root_materials_map self)
           (findContainersMetadata (container_registry self) ''material'') =
         Inr (guid_to_root_materials_map self')"
  using assms
  by (auto simp: MaterialManager_initialize_def Let_def split: sum.splits)


text \<open>
  C6.  After a successful \<open>initialize()\<close> of a fresh manager, the GUID table maps a
  GUID to a fresh node for the first record of the metadata list that is a root record
  of that GUID (not the sentinel, \<open>id\<close> equal to \<open>base_file\<close>), and has no entry when
  the list has no such record.  Accordingly \<open>getMaterialByGUID\<close> loads the container
  of that first root record, and returns absent, leaving the manager unchanged, when no
  root record declares the GUID.  Later root records of a GUID raise nothing: the first
  loop succeeds whenever every record has an \<open>id\<close> and every record other than the
  sentinel has a \<open>GUID\<close>.
\<close>

theorem guid_table_first_root:
  assumes "MaterialManager_initialize (MaterialManager_init registry) = Inr self"
  shows "guid_to_root_materials_map self guid =
           map_option (\<lambda>md. new_MaterialNode (Some md))
             (find (root_record_of guid) (findContainersMetadata registry ''material'')) \<and>
         (find (root_record_of guid) (findContainersMetadata registry ''material'') = None \<longrightarrow>
            getMaterialByGUID self guid = (Inr None, self)) \<and>
         (\<forall>md. find (root_record_of guid) (findContainersMetadata registry ''material'') =
                 Some md \<longrightarrow>
            fst (getMaterialByGUID self guid) =
              found (fst (getContainerOnNode self (new_MaterialNode (Some md)))) \<and>
            (\<forall>container_id c cs.
               md ''id'' = Some container_id \<and>
               findInstanceContainers registry container_id = c # cs \<longrightarrow>
               fst (getMaterialByGUID self guid) = Inr (Some c))) \<and>
         ((\<forall>md \<in> set (findContainersMetadata registry ''material'').
             md ''id'' \<noteq> None \<and>
             (md ''id'' \<noteq> Some ''empty_material'' \<longrightarrow> md ''GUID'' \<noteq> None)) \<longrightarrow>
          (\<exists>guid_map. for_each add_root_material Map.empty
                         (findContainersMetadata registry ''material'') = Inr guid_map))"
proof -
  let ?mds = "findContainersMetadata registry ''material''"
  have reg: "container_registry self = registry"
    using initialize_keeps_settings [OF assms] by (simp add: MaterialManager_init_def)
  have "for_each add_root_material Map.empty ?mds = Inr (guid_to_root_materials_map self)"
    using initialize_guid_map [OF assms] by (simp add: MaterialManager_init_def)
  from for_each_add_root_material [OF this, of guid]
  have table: "guid_to_root_materials_map self guid =
      map_option (\<lambda>md. new_MaterialNode (Some md)) (find (root_record_of guid) ?mds)"
    by simp
  have absent: "getMaterialByGUID self guid = (Inr None, self)"
    if "find (root_record_of guid) ?mds = None"
    using table that by (simp add: getMaterialByGUID_def)
  have present: "fst (getMaterialByGUID self guid) =
        found (fst (getContainerOnNode self (new_MaterialNode (Some md)))) \<and>
      (\<forall>container_id c cs.
         md ''id'' = Some container_id \<and>
         findInstanceContainers registry container_id = c # cs \<longrightarrow>
         fst (getMaterialByGUID self guid) = Inr (Some c))"
    if "find (root_record_of guid) ?mds = Some md" for md
  proof -
    have n: "node_at self (RootMaterial guid) = Some (new_MaterialNode (Some md))"
      using table that by simp
    have o: "fst (getMaterialByGUID self guid) =
        found (fst (getContainerOnNode self (new_MaterialNode (Some md))))"
      by (simp only: getMaterialByGUID_load load_node_outcome [OF n])
    show ?thesis
      by (auto simp: o reg getContainerOnNode_def new_MaterialNode_def found_def)
  qed
  show ?thesis
    using table absent present for_each_add_root_material_total [of ?mds Map.empty]
    by blast
qed

theorem guid_table_first_root_witness:
  "MaterialManager_initialize (MaterialManager_init two_roots_registry) =
     Inr two_roots_materials \<and>
   find (root_record_of ''G1'') (findContainersMetadata two_roots_registry ''material'') =
     Some generic_pla \<and>
   find (root_record_of ''G2'') (findContainersMetadata two_roots_registry ''material'') = None \<and>
   guid_to_root_materials_map two_roots_materials ''G1'' =
     Some (new_MaterialNode (Some generic_pla)) \<and>
   fst (getMaterialByGUID two_roots_materials ''G1'') = Inr (Some ''generic_pla'') \<and>
   getMaterialByGUID two_roots_materials ''G2'' = (Inr None, two_roots_materials) \<and>
   (\<exists>guid_map. for_each add_root_material Map.empty
       (findContainersMetadata two_roots_registry ''material'') = Inr guid_map)"
proof -
  let ?mds = "findContainersMetadata two_roots_registry ''material''"
  have mds: "?mds = [generic_pla, generic_pla_copy]"
    by (simp add: two_roots_registry_def)
  have r1: "root_record_of ''G1'' generic_pla"
    by (simp add: root_record_of_def generic_pla_def)
  have f1: "find (root_record_of ''G1'') ?mds = Some generic_pla"
    by (simp add: mds r1)
  have r2: "\<not> root_record_of ''G2'' generic_pla" "\<not> root_record_of ''G2'' generic_pla_copy"
    by (simp_all add: root_record_of_def generic_pla_def generic_pla_copy_def)
  have f2: "find (root_record_of ''G2'') ?mds = None"
    by (simp add: mds r2)
  have ids: "\<forall>md \<in> set ?mds. md ''id'' \<noteq> None \<and>
      (md ''id'' \<noteq> Some ''empty_material'' \<longrightarrow> md ''GUID'' \<noteq> None)"
    by (simp add: mds generic_pla_def generic_pla_copy_def)
  have id1: "generic_pla ''id'' = Some ''generic_pla''"
    by (simp add: generic_pla_def)
  have c1: "findInstanceContainers two_roots_registry ''generic_pla'' = [''generic_pla'']"
    by (simp add: two_roots_registry_def)
  note t1 = guid_table_first_root [OF two_roots_materials_built, of "''G1''"]
  note t2 = guid_table_first_root [OF two_roots_materials_built, of "''G2''"]
  have g1: "guid_to_root_materials_map two_roots_materials ''G1'' =
      Some (new_MaterialNode (Some generic_pla))"
    using t1 [THEN conjunct1] by (simp only: f1 option.map)
  have q1: "fst (getMaterialByGUID two_roots_materials ''G1'') = Inr (Some ''generic_pla'')"
    by (rule t1 [THEN conjunct2, THEN conjunct2, THEN conjunct1, rule_format, OF f1,
          THEN conjunct2, rule_format, OF conjI [OF id1 c1]])
  have q2: "getMaterialByGUID two_roots_materials ''G2'' = (Inr None, two_roots_materials)"
    by (rule t2 [THEN conjunct2, THEN conjunct1, rule_format, OF f2])
  have ex: "\<exists>guid_map. for_each add_root_material Map.empty ?mds = Inr guid_map"
    by (rule t1 [THEN conjunct2, THEN conjunct2, THEN conjunct2, THEN mp, OF ids])
  show ?thesis
    using two_roots_materials_built f1 f2 g1 q1 q2 ex by (intro conjI)
qed

section \<open>The build loops\<close>

lemma for_each_append:
  "for_each body s (xs @ ys) =
     (case for_each body s xs of Inl e \<Rightarrow> Inl e | Inr s' \<Rightarrow> for_each body s' ys)"
  by (induction xs arbitrary: s) (auto split: sum.splits)

lemma for_each_invariant:
  assumes step: "\<And>s x s'. P s \<Longrightarrow> body s x = Inr s' \<Longrightarrow> P s'"
  shows "P s \<Longrightarrow> for_each body s xs = Inr s' \<Longrightarrow> P s'"
proof (induction xs arbitrary: s)
  case Nil
  then show ?case by simp
next
  case (Cons x xs)
  show ?case
  proof (cases "body s x")
    case (Inl e)
    then show ?thesis using Cons.prems(2) by simp
  next
    case (Inr s1)
    then have "P s1" using Cons.prems(1) by (rule step [rotated])
    moreover have "for_each body s1 xs = Inr s'" using Cons.prems(2) Inr by simp
    ultimately show ?thesis by (rule Cons.IH)
  qed
qed

lemma machine_leaf_insert_machine_leaf:
  "machine_leaf (insert_machine_leaf t d m r n) d' m' r' =
     (if d' = d \<and> m' = m \<and> r' = r then Some n else machine_leaf t d' m' r')"
  by (simp add: machine_leaf_def insert_machine_leaf_def new_MaterialNode_def Let_def
      split: option.splits)

lemma variant_leaf_insert_machine_leaf:
  "variant_leaf (insert_machine_leaf t d m r n) d' m' v' r' = variant_leaf t d' m' v' r'"
  by (simp add: variant_leaf_def insert_machine_leaf_def new_MaterialNode_def Let_def
      split: option.splits)

lemma machine_leaf_insert_variant_leaf:
  "machine_leaf (insert_variant_leaf t d m v r n) d' m' r' = machine_leaf t d' m' r'"
  by (simp add: machine_leaf_def insert_variant_leaf_def new_MaterialNode_def Let_def
      split: option.splits)

lemma variant_leaf_insert_variant_leaf:
  "variant_leaf (insert_variant_leaf t d m v r n) d' m' v' r' =
     (if d' = d \<and> m' = m \<and> v' = v \<and> r' = r then Some n else variant_leaf t d' m' v' r')"
  by (simp add: variant_leaf_def insert_variant_leaf_def new_MaterialNode_def Let_def
      split: option.splits)

lemma material_key_fields:
  assumes "material_key g md = Some (d, m, vo, r)"
  obtains material_id guid root_node root_metadata where
    "md ''id'' = Some material_id" "material_id \<noteq> ''empty_material''"
    "md ''GUID'' = Some guid" "g guid = Some root_node"
    "metadata root_node = Some root_metadata" "root_metadata ''id'' = Some r"
    "md ''definition'' = Some m" "md ''approximate_diameter'' = Some d"
    "vo = (case md ''variant_name'' of None \<Rightarrow> None
           | Some variant \<Rightarrow> if variant = [] then None else Some variant)"
  using assms
  by (simp add: material_key_def split: option.splits if_splits)

lemma add_material_fields:
  assumes "add_material g t md = Inr t'" and "md ''id'' = Some material_id"
    and "material_id \<noteq> ''empty_material''"
  obtains guid root_node root_metadata r m d where
    "md ''GUID'' = Some guid" "g guid = Some root_node"
    "metadata root_node = Some root_metadata" "root_metadata ''id'' = Some r"
    "md ''definition'' = Some m" "md ''approximate_diameter'' = Some d"
proof -
  obtain guid where 1: "md ''GUID'' = Some guid"
    using assms by (cases "md ''GUID''") (simp_all add: add_material_def)
  obtain root_node where 2: "g guid = Some root_node"
    using assms 1 by (cases "g guid") (simp_all add: add_material_def)
  obtain root_metadata where 3: "metadata root_node = Some root_metadata"
    using assms 1 2 by (cases "metadata root_node") (simp_all add: add_material_def)
  obtain r where 4: "root_metadata ''id'' = Some r"
    using assms 1 2 3 by (cases "root_metadata ''id''") (simp_all add: add_material_def)
  obtain m where 5: "md ''definition'' = Some m"
    using assms 1 2 3 4 by (cases "md ''definition''") (simp_all add: add_material_def)
  obtain d where 6: "md ''approximate_diameter'' = Some d"
    using assms 1 2 3 4 5
    by (cases "md ''approximate_diameter''") (simp_all add: add_material_def)
  show ?thesis using 1 2 3 4 5 6 by (rule that)
qed

lemma add_material_no_key:
  assumes "material_key g md = None" and "add_material g t md = Inr t'"
  shows "t' = t"
proof (cases "md ''id''")
  case None
  then show ?thesis using assms(2) by (simp add: add_material_def)
next
  case (Some material_id)
  show ?thesis
  proof (cases "material_id = ''empty_material''")
    case True
    then show ?thesis using assms(2) Some by (simp add: add_material_def)
  next
    case False
    from assms(2) Some False obtain guid root_node root_metadata r m d where
      "md ''GUID'' = Some guid" "g guid = Some root_node"
      "metadata root_node = Some root_metadata" "root_metadata ''id'' = Some r"
      "md ''definition'' = Some m" "md ''approximate_diameter'' = Some d"
      by (rule add_material_fields)
    then have "material_key g md \<noteq> None"
      using Some False by (simp add: material_key_def)
    then show ?thesis using assms(1) by simp
  qed
qed

lemma add_material_machine_key:
  assumes "material_key g md = Some (d, m, None, r)"
  shows "add_material g t md = Inr (insert_machine_leaf t d m r (new_MaterialNode (Some md)))"
proof -
  from assms obtain material_id guid root_node root_metadata where f:
    "md ''id'' = Some material_id" "material_id \<noteq> ''empty_material''"
    "md ''GUID'' = Some guid" "g guid = Some root_node"
    "metadata root_node = Some root_metadata" "root_metadata ''id'' = Some r"
    "md ''definition'' = Some m" "md ''approximate_diameter'' = Some d"
    "None = (case md ''variant_name'' of None \<Rightarrow> None
           | Some variant \<Rightarrow> if variant = [] then None else Some variant)"
    by (rule material_key_fields)
  show ?thesis
  proof (cases "md ''variant_name''")
    case None
    then show ?thesis
      using f(1-8) by (simp add: add_material_def insert_machine_leaf_def Let_def)
  next
    case (Some variant)
    then have "variant = []" using f(9) by (simp split: if_splits)
    then show ?thesis
      using f(1-8) Some by (simp add: add_material_def insert_machine_leaf_def Let_def)
  qed
qed

lemma add_material_variant_key:
  assumes "material_key g md = Some (d, m, Some v, r)" and "md ''id'' = Some material_id"
  shows "add_material g t md =
     (if variant_leaf t d m v r = None
      then Inr (insert_variant_leaf t d m v r (new_MaterialNode (Some md)))
      else Inl (RuntimeError (duplicate_material_message v m material_id)))"
proof -
  from assms(1) obtain material_id' guid root_node root_metadata where f:
    "md ''id'' = Some material_id'" "material_id' \<noteq> ''empty_material''"
    "md ''GUID'' = Some guid" "g guid = Some root_node"
    "metadata root_node = Some root_metadata" "root_metadata ''id'' = Some r"
    "md ''definition'' = Some m" "md ''approximate_diameter'' = Some d"
    "Some v = (case md ''variant_name'' of None \<Rightarrow> None
           | Some variant \<Rightarrow> if variant = [] then None else Some variant)"
    by (rule material_key_fields)
  from f(9) have vn: "md ''variant_name'' = Some v" "v \<noteq> []"
    by (auto split: option.splits if_splits)
  have leaf: "variant_leaf t d m v r =
      material_map (case children_map (case (case t d of None \<Rightarrow> Map.empty | Some b \<Rightarrow> b) m of
          None \<Rightarrow> new_MaterialNode None | Some n \<Rightarrow> n) v of
        None \<Rightarrow> new_MaterialNode None | Some n \<Rightarrow> n) r"
    by (simp add: variant_leaf_def new_MaterialNode_def split: option.splits)
  show ?thesis
    using f(1-8) vn assms(2)
    by (simp add: add_material_def insert_variant_leaf_def Let_def leaf)
qed

lemma material_key_id:
  "material_key g md = Some k \<Longrightarrow> \<exists>material_id. md ''id'' = Some material_id"
  by (auto simp: material_key_def split: option.splits if_splits)


lemma add_material_keeps_variant_leaf:
  assumes "add_material g t x = Inr t'" and "variant_leaf t d m v r = Some n"
  shows "variant_leaf t' d m v r = Some n"
proof (cases "material_key g x")
  case None
  then show ?thesis using assms add_material_no_key by blast
next
  case (Some k)
  obtain d' m' vo r' where k: "k = (d', m', vo, r')" by (cases k)
  show ?thesis
  proof (cases vo)
    case None
    then have "t' = insert_machine_leaf t d' m' r' (new_MaterialNode (Some x))"
      using add_material_machine_key [of g x d' m' r' t] Some k assms(1) by simp
    then show ?thesis using assms(2) by (simp add: variant_leaf_insert_machine_leaf)
  next
    case (Some v')
    obtain material_id where "x ''id'' = Some material_id"
      using material_key_id \<open>material_key g x = Some k\<close> by blast
    then have step: "add_material g t x =
        (if variant_leaf t d' m' v' r' = None
         then Inr (insert_variant_leaf t d' m' v' r' (new_MaterialNode (Some x)))
         else Inl (RuntimeError (duplicate_material_message v' m' material_id)))"
      using add_material_variant_key [of g x d' m' v' r' material_id t]
        \<open>material_key g x = Some k\<close> k Some by simp
    have free: "variant_leaf t d' m' v' r' = None"
      using step assms(1) by (simp split: if_splits)
    then have "t' = insert_variant_leaf t d' m' v' r' (new_MaterialNode (Some x))"
      using step assms(1) by simp
    then show ?thesis
      using assms(2) free by (auto simp: variant_leaf_insert_variant_leaf)
  qed
qed

lemma for_each_add_material_keeps_variant_leaf:
  assumes "for_each (add_material g) t xs = Inr t'" and "variant_leaf t d m v r = Some n"
  shows "variant_leaf t' d m v r = Some n"
  using add_material_keeps_variant_leaf assms(2,1)
  by (rule for_each_invariant [where P = "\<lambda>t. variant_leaf t d m v r = Some n"])

lemma duplicate_variant_material:
  assumes a: "material_key g a = Some (d, m, Some v, r)"
    and b: "material_key g b = Some (d, m, Some v, r)"
    and id: "b ''id'' = Some material_id"
  shows "\<exists>e. for_each (add_material g) t (pre @ a # mid @ b # post) = Inl e \<and>
           (e = RuntimeError (duplicate_material_message v m material_id) \<or>
            for_each (add_material g) t (pre @ a # mid) = Inl e)"
proof (cases "for_each (add_material g) t (pre @ a # mid)")
  case (Inl e)
  then have "for_each (add_material g) t ((pre @ a # mid) @ b # post) = Inl e"
    by (simp only: for_each_append sum.case)
  then show ?thesis using Inl by simp
next
  case (Inr t2)
  then obtain t0 where t0: "for_each (add_material g) t pre = Inr t0"
    and rest: "for_each (add_material g) t0 (a # mid) = Inr t2"
    by (auto simp: for_each_append split: sum.splits)
  from rest obtain t1 where t1: "add_material g t0 a = Inr t1"
    and mid: "for_each (add_material g) t1 mid = Inr t2"
    by (auto split: sum.splits)
  obtain a_id where "a ''id'' = Some a_id"
    using material_key_id a by blast
  then have "variant_leaf t1 d m v r = Some (new_MaterialNode (Some a))"
    using add_material_variant_key [OF a, of a_id t0] t1
    by (auto simp: variant_leaf_insert_variant_leaf split: if_splits)
  then have "variant_leaf t2 d m v r = Some (new_MaterialNode (Some a))"
    using mid for_each_add_material_keeps_variant_leaf by blast
  then have "add_material g t2 b = Inl (RuntimeError (duplicate_material_message v m material_id))"
    using add_material_variant_key [OF b id, of t2] by simp
  then have "(case for_each (add_material g) t (pre @ a # mid) of Inl e \<Rightarrow> Inl e
       | Inr s' \<Rightarrow> for_each (add_material g) s' (b # post)) =
      Inl (RuntimeError (duplicate_material_message v m material_id))"
    using Inr by simp
  then have "for_each (add_material g) t ((pre @ a # mid) @ b # post) =
      Inl (RuntimeError (duplicate_material_message v m material_id))"
    by (simp only: for_each_append)
  then show ?thesis by simp
qed

end
